theory Spec2Isabelle
  imports Main "HOL-Library.Word"
begin

section \<open>The C types of CGRPCZlib.h\<close>

text \<open>
  The header \<^verbatim>\<open>Sources/CGRPCNIOTransportZlib/include/CGRPCZlib.h\<close> holds ten
  \<^verbatim>\<open>static inline\<close> functions. Nine of them call one operation of zlib each and return
  what it returns; the tenth converts a \<^verbatim>\<open>void *\<close> into a \<^verbatim>\<open>Bytef *\<close>.

  C's \<^verbatim>\<open>int\<close> is a 32-bit word (read as a signed number with \<open>sint\<close>),
  \<^verbatim>\<open>unsigned long\<close> a 64-bit word (LP64) and an address a 64-bit word. No arithmetic
  is done on any of them in this header: the values are only handed on.
\<close>

type_synonym c_int = "32 word"
type_synonym c_ulong = "64 word"
type_synonym addr = "64 word"

text \<open>
  A pointer is an address; the type parameter records the C type it points to and has
  no influence on the value.
\<close>

datatype 'a ptr = Ptr (ptr_val: addr)

definition NULL :: "'a ptr" where
  "NULL = Ptr 0"

text \<open>
  \<^verbatim>\<open>struct z_stream_s\<close> is declared in \<^verbatim>\<open>zlib.h\<close>, which is not part of the
  repository. The header only passes pointers to it, so the struct stays an unspecified type.
  \<^verbatim>\<open>Bytef\<close> is zlib's name for \<^verbatim>\<open>unsigned char\<close>; \<^verbatim>\<open>void *\<close> is a pointer
  to \<open>unit\<close>.
\<close>

typedecl z_stream

type_synonym z_streamp = "z_stream ptr"
type_synonym Bytef = "8 word"
type_synonym void_ptr = "unit ptr"

section \<open>The zlib library as a parameter\<close>

text \<open>
  zlib itself (\<^verbatim>\<open>#include <zlib.h>\<close> and the library linked in) is not part of the
  repository. Its nine entry points used by the header are therefore a parameter of the
  model: a record with one field for each, named as in the header's calls
  (\<^verbatim>\<open>deflateInit2\<close> and \<^verbatim>\<open>inflateInit2\<close> are macros of \<^verbatim>\<open>zlib.h\<close>; they are
  taken as they are called). An operation takes its C arguments in the C order and then the
  program state \<open>'s\<close> (the whole memory: the \<^verbatim>\<open>z_stream\<close> structs, the buffers
  they point to and zlib's internal state), and returns its C result with the new state.
\<close>

record 's zlib =
  deflateInit2 :: "z_streamp \<Rightarrow> c_int \<Rightarrow> c_int \<Rightarrow> c_int \<Rightarrow> c_int \<Rightarrow> c_int \<Rightarrow> 's \<Rightarrow> c_int \<times> 's"
  deflateBound :: "z_streamp \<Rightarrow> c_ulong \<Rightarrow> 's \<Rightarrow> c_ulong \<times> 's"
  deflate :: "z_streamp \<Rightarrow> c_int \<Rightarrow> 's \<Rightarrow> c_int \<times> 's"
  deflateReset :: "z_streamp \<Rightarrow> 's \<Rightarrow> c_int \<times> 's"
  deflateEnd :: "z_streamp \<Rightarrow> 's \<Rightarrow> c_int \<times> 's"
  inflateInit2 :: "z_streamp \<Rightarrow> c_int \<Rightarrow> 's \<Rightarrow> c_int \<times> 's"
  inflate :: "z_streamp \<Rightarrow> c_int \<Rightarrow> 's \<Rightarrow> c_int \<times> 's"
  inflateReset :: "z_streamp \<Rightarrow> 's \<Rightarrow> c_int \<times> 's"
  inflateEnd :: "z_streamp \<Rightarrow> 's \<Rightarrow> c_int \<times> 's"

section \<open>The functions of the header\<close>

text \<open>
  Each definition follows the C function of the same name: the parameters in the
  order of the C parameter list, the body the single \<^verbatim>\<open>return\<close> statement. The
  first argument \<open>z\<close> is the zlib the header is compiled and linked against.
\<close>

definition CGRPCNIOTransportZlib_deflateInit2 ::
  "'s zlib \<Rightarrow> z_streamp \<Rightarrow> c_int \<Rightarrow> c_int \<Rightarrow> c_int \<Rightarrow> c_int \<Rightarrow> c_int \<Rightarrow> 's \<Rightarrow> c_int \<times> 's" where
  "CGRPCNIOTransportZlib_deflateInit2 z stream level method windowBits memLevel strategy =
     deflateInit2 z stream level method windowBits memLevel strategy"

definition CGRPCNIOTransportZlib_deflateBound ::
  "'s zlib \<Rightarrow> z_streamp \<Rightarrow> c_ulong \<Rightarrow> 's \<Rightarrow> c_ulong \<times> 's" where
  "CGRPCNIOTransportZlib_deflateBound z strm sourceLen = deflateBound z strm sourceLen"

definition CGRPCNIOTransportZlib_deflate ::
  "'s zlib \<Rightarrow> z_streamp \<Rightarrow> c_int \<Rightarrow> 's \<Rightarrow> c_int \<times> 's" where
  "CGRPCNIOTransportZlib_deflate z strm flush = deflate z strm flush"

definition CGRPCNIOTransportZlib_deflateReset ::
  "'s zlib \<Rightarrow> z_streamp \<Rightarrow> 's \<Rightarrow> c_int \<times> 's" where
  "CGRPCNIOTransportZlib_deflateReset z strm = deflateReset z strm"

definition CGRPCNIOTransportZlib_deflateEnd ::
  "'s zlib \<Rightarrow> z_streamp \<Rightarrow> 's \<Rightarrow> c_int \<times> 's" where
  "CGRPCNIOTransportZlib_deflateEnd z strm = deflateEnd z strm"

definition CGRPCNIOTransportZlib_inflateInit2 ::
  "'s zlib \<Rightarrow> z_streamp \<Rightarrow> c_int \<Rightarrow> 's \<Rightarrow> c_int \<times> 's" where
  "CGRPCNIOTransportZlib_inflateInit2 z stream windowBits = inflateInit2 z stream windowBits"

definition CGRPCNIOTransportZlib_inflate ::
  "'s zlib \<Rightarrow> z_streamp \<Rightarrow> c_int \<Rightarrow> 's \<Rightarrow> c_int \<times> 's" where
  "CGRPCNIOTransportZlib_inflate z strm flush = inflate z strm flush"

definition CGRPCNIOTransportZlib_inflateReset ::
  "'s zlib \<Rightarrow> z_streamp \<Rightarrow> 's \<Rightarrow> c_int \<times> 's" where
  "CGRPCNIOTransportZlib_inflateReset z strm = inflateReset z strm"

definition CGRPCNIOTransportZlib_inflateEnd ::
  "'s zlib \<Rightarrow> z_streamp \<Rightarrow> 's \<Rightarrow> c_int \<times> 's" where
  "CGRPCNIOTransportZlib_inflateEnd z strm = inflateEnd z strm"

text \<open>
  The cast \<^verbatim>\<open>(Bytef *) in\<close> keeps the address and changes the pointee type only.
  The function is written in the same state-passing form as the others, so that what it
  does to the memory can be stated: it hands the state on.
\<close>

fun ptr_coerce :: "'a ptr \<Rightarrow> 'b ptr" where
  "ptr_coerce (Ptr a) = Ptr a"

definition CGRPCNIOTransportZlib_castVoidToBytefPointer ::
  "void_ptr \<Rightarrow> 's \<Rightarrow> Bytef ptr \<times> 's" where
  "CGRPCNIOTransportZlib_castVoidToBytefPointer inp s = (ptr_coerce inp, s)"

section \<open>Properties\<close>

lemma ptr_val_ptr_coerce: "ptr_val (ptr_coerce p) = ptr_val p"
  by (cases p) simp

lemma ptr_coerce_NULL: "ptr_coerce NULL = NULL"
  by (simp add: NULL_def)

text \<open>
  C1. Whatever zlib is linked, whatever the stream pointer, the arguments and the memory,
  each of the nine renamed functions returns the result of the zlib operation of the same
  name on the same arguments in the same order, and leaves the memory in the state in
  which that zlib call leaves it (the two components of the pair).
\<close>

theorem wrappers_forward_to_zlib:
  "CGRPCNIOTransportZlib_deflateInit2 z stream level method windowBits memLevel strategy s =
     deflateInit2 z stream level method windowBits memLevel strategy s
   \<and> CGRPCNIOTransportZlib_deflateBound z strm sourceLen s = deflateBound z strm sourceLen s
   \<and> CGRPCNIOTransportZlib_deflate z strm flush s = deflate z strm flush s
   \<and> CGRPCNIOTransportZlib_deflateReset z strm s = deflateReset z strm s
   \<and> CGRPCNIOTransportZlib_deflateEnd z strm s = deflateEnd z strm s
   \<and> CGRPCNIOTransportZlib_inflateInit2 z stream windowBits s = inflateInit2 z stream windowBits s
   \<and> CGRPCNIOTransportZlib_inflate z strm flush s = inflate z strm flush s
   \<and> CGRPCNIOTransportZlib_inflateReset z strm s = inflateReset z strm s
   \<and> CGRPCNIOTransportZlib_inflateEnd z strm s = inflateEnd z strm s"
  unfolding CGRPCNIOTransportZlib_deflateInit2_def CGRPCNIOTransportZlib_deflateBound_def
    CGRPCNIOTransportZlib_deflate_def CGRPCNIOTransportZlib_deflateReset_def
    CGRPCNIOTransportZlib_deflateEnd_def CGRPCNIOTransportZlib_inflateInit2_def
    CGRPCNIOTransportZlib_inflate_def CGRPCNIOTransportZlib_inflateReset_def
    CGRPCNIOTransportZlib_inflateEnd_def
  by (intro conjI refl)

text \<open>
  C9. For every pointer \<open>p\<close>, the null pointer included, the cast helper returns a
  \<^verbatim>\<open>Bytef\<close> pointer with the address of \<open>p\<close>; the result is the same in every memory
  state (nothing is read), and the memory state is returned as it was (nothing is written).
\<close>

theorem castVoidToBytefPointer_same_address:
  "ptr_val (fst (CGRPCNIOTransportZlib_castVoidToBytefPointer p s)) = ptr_val p
   \<and> snd (CGRPCNIOTransportZlib_castVoidToBytefPointer p s) = s
   \<and> fst (CGRPCNIOTransportZlib_castVoidToBytefPointer p s) =
       fst (CGRPCNIOTransportZlib_castVoidToBytefPointer p s')
   \<and> CGRPCNIOTransportZlib_castVoidToBytefPointer NULL s = (NULL, s)"
  by (simp add: CGRPCNIOTransportZlib_castVoidToBytefPointer_def ptr_val_ptr_coerce
      ptr_coerce_NULL)

end
